theory Spec2Isabelle
  imports Complex_Main "HOL-Library.Sublist"
begin

section \<open>Python values\<close>

subsection \<open>Strings\<close>

text \<open>
  A Python \<open>str\<close> is a sequence of Unicode code points, so it is modelled as a list of
  natural numbers, one per code point. \<open>ascii\<close> writes an ASCII literal; the euro sign is
  code point U+20AC. Case mapping and digit recognition are reproduced for ASCII only:
  the Unicode tables behind \<open>str.lower\<close>, \<open>str.title\<close> and the decimal digits accepted
  by \<open>float\<close> outside ASCII are not part of this development.
\<close>

type_synonym pystr = "nat list"

abbreviation ascii :: "string \<Rightarrow> pystr" where
  "ascii s \<equiv> map of_char s"

definition euro :: pystr where
  "euro = [8364]"

text \<open>The code points for which \<open>str.isspace\<close> holds; \<open>str.strip()\<close> removes them at both ends.\<close>

definition isspace :: "nat \<Rightarrow> bool" where
  "isspace c = ((9 \<le> c \<and> c \<le> 13) \<or> (28 \<le> c \<and> c \<le> 32) \<or> c = 133 \<or> c = 160
     \<or> c = 5760 \<or> (8192 \<le> c \<and> c \<le> 8202) \<or> c = 8232 \<or> c = 8233 \<or> c = 8239
     \<or> c = 8287 \<or> c = 12288)"

definition strip :: "pystr \<Rightarrow> pystr" where
  "strip s = rev (dropWhile isspace (rev (dropWhile isspace s)))"

definition is_upper :: "nat \<Rightarrow> bool" where
  "is_upper c = (65 \<le> c \<and> c \<le> 90)"

definition is_lower :: "nat \<Rightarrow> bool" where
  "is_lower c = (97 \<le> c \<and> c \<le> 122)"

definition is_digit :: "nat \<Rightarrow> bool" where
  "is_digit c = (48 \<le> c \<and> c \<le> 57)"

definition lower_char :: "nat \<Rightarrow> nat" where
  "lower_char c = (if is_upper c then c + 32 else c)"

definition upper_char :: "nat \<Rightarrow> nat" where
  "upper_char c = (if is_lower c then c - 32 else c)"

definition lower :: "pystr \<Rightarrow> pystr" where
  "lower s = map lower_char s"

text \<open>\<open>sub in s\<close> for two strings: \<open>sub\<close> occurs in \<open>s\<close> as a contiguous run.\<close>

fun str_contains :: "pystr \<Rightarrow> pystr \<Rightarrow> bool" where
  "str_contains sub [] = (sub = [])"
| "str_contains sub (c # cs) = (prefix sub (c # cs) \<or> str_contains sub cs)"

text \<open>\<open>s.replace(old, new)\<close> where \<open>old\<close> is the one-character string \<open>[c]\<close>.\<close>

definition replace_char :: "nat \<Rightarrow> pystr \<Rightarrow> pystr \<Rightarrow> pystr" where
  "replace_char c new s = concat (map (\<lambda>x. if x = c then new else [x]) s)"

text \<open>\<open>s.split(sep)[-1]\<close> for a one-character separator: what follows its last occurrence.\<close>

definition last_segment :: "nat \<Rightarrow> pystr \<Rightarrow> pystr" where
  "last_segment sep s = rev (takeWhile (\<lambda>x. x \<noteq> sep) (rev s))"

text \<open>\<open>str.title()\<close>: a letter is upper-cased unless the character before it is a letter.\<close>

fun title_from :: "bool \<Rightarrow> pystr \<Rightarrow> pystr" where
  "title_from previous_is_cased [] = []"
| "title_from previous_is_cased (c # cs) =
     (if previous_is_cased then lower_char c else upper_char c)
       # title_from (is_upper c \<or> is_lower c) cs"

definition title_case :: "pystr \<Rightarrow> pystr" where
  "title_case s = title_from False s"

text \<open>Decimal rendering of an integer, as \<open>str(n)\<close> gives it.\<close>

fun digits10 :: "nat \<Rightarrow> pystr" where
  "digits10 n = (if n < 10 then [48 + n] else digits10 (n div 10) @ [48 + n mod 10])"

declare digits10.simps [simp del]

definition str_int :: "int \<Rightarrow> pystr" where
  "str_int i = (if i < 0 then 45 # digits10 (nat (- i)) else digits10 (nat i))"

subsection \<open>Floats and \<open>float(str)\<close>\<close>

text \<open>
  \<open>Finite q\<close> stands for the binary64 number nearest to the rational \<open>q\<close>; the rounding
  itself, overflow to infinity and underflow to zero are not carried out. The numbers the
  specification names, 129.0, 199.5 and 0.0, are binary64 numbers.
\<close>

datatype pyfloat = Finite rat | Infinite bool | NaN

text \<open>
  Underscores in a numeric literal are accepted only between two digits and are then
  dropped; \<open>None\<close> is the \<open>ValueError\<close>.
\<close>

fun drop_underscores :: "nat \<Rightarrow> pystr \<Rightarrow> pystr option" where
  "drop_underscores prev [] = (if prev = 95 then None else Some [])"
| "drop_underscores prev (c # cs) =
     (if c = 95 then (if is_digit prev then drop_underscores c cs else None)
      else if prev = 95 \<and> \<not> is_digit c then None
      else map_option (\<lambda>r. c # r) (drop_underscores c cs))"

definition float_space :: "nat \<Rightarrow> bool" where
  "float_space c = ((9 \<le> c \<and> c \<le> 13) \<or> c = 32 \<or> (127 \<le> c \<and> isspace c))"

definition digits_value :: "pystr \<Rightarrow> nat" where
  "digits_value ds = foldl (\<lambda>a d. 10 * a + (d - 48)) 0 ds"

definition pow10 :: "int \<Rightarrow> rat" where
  "pow10 e = (if 0 \<le> e then 10 ^ nat e else 1 / 10 ^ nat (- e))"

text \<open>The exponent part after the mantissa: empty, or \<open>e\<close>/\<open>E\<close>, an optional sign and digits.\<close>

definition parse_exponent :: "pystr \<Rightarrow> int option" where
  "parse_exponent r =
     (case r of
        [] \<Rightarrow> Some 0
      | c # r1 \<Rightarrow>
          if c = 101 \<or> c = 69 then
            (let neg = (r1 \<noteq> [] \<and> hd r1 = 45);
                 ds = (if r1 \<noteq> [] \<and> (hd r1 = 45 \<or> hd r1 = 43) then tl r1 else r1)
             in if ds \<noteq> [] \<and> list_all is_digit ds
                then Some (if neg then - int (digits_value ds) else int (digits_value ds))
                else None)
          else None)"

definition parse_decimal :: "pystr \<Rightarrow> rat option" where
  "parse_decimal s =
     (let ip = takeWhile is_digit s; r1 = dropWhile is_digit s;
          fp = (if r1 \<noteq> [] \<and> hd r1 = 46 then takeWhile is_digit (tl r1) else []);
          r2 = (if r1 \<noteq> [] \<and> hd r1 = 46 then dropWhile is_digit (tl r1) else r1)
      in if ip = [] \<and> fp = [] then None
         else map_option
                (\<lambda>e. of_nat (digits_value (ip @ fp)) * pow10 (e - int (length fp)))
                (parse_exponent r2))"

definition parse_signed :: "pystr \<Rightarrow> pyfloat option" where
  "parse_signed s =
     (let neg = (s \<noteq> [] \<and> hd s = 45);
          body = (if s \<noteq> [] \<and> (hd s = 45 \<or> hd s = 43) then tl s else s)
      in if lower body = ascii ''inf'' \<or> lower body = ascii ''infinity'' then Some (Infinite neg)
         else if lower body = ascii ''nan'' then Some NaN
         else map_option (\<lambda>q. Finite (if neg then - q else q)) (parse_decimal body))"

definition float_of_str :: "pystr \<Rightarrow> pyfloat option" where
  "float_of_str s =
     (case (if 95 \<in> set s then drop_underscores 0 s else Some s) of
        None \<Rightarrow> None
      | Some t \<Rightarrow> parse_signed (rev (dropWhile float_space (rev (dropWhile float_space t)))))"

subsection \<open>Decoded JSON\<close>

text \<open>
  What \<open>json.load\<close> returns: \<open>None\<close>, \<open>bool\<close>, \<open>int\<close>, \<open>float\<close>, \<open>str\<close>, \<open>list\<close>
  and \<open>dict\<close>. A dictionary is an association list in insertion order; a lookup takes the
  first entry for the key.
\<close>

datatype json = JNull | JBool bool | JInt int | JFloat pyfloat | JStr pystr
  | JArr "json list" | JObj "(pystr \<times> json) list"

type_synonym pydict = "(pystr \<times> json) list"

datatype exn = AttributeError | TypeError | KeyError | IndexError

text \<open>\<open>d.get(key, default)\<close> on a dictionary, and \<open>d.get(key)\<close> whose default is \<open>None\<close>.\<close>

definition dict_get :: "pydict \<Rightarrow> string \<Rightarrow> json \<Rightarrow> json" where
  "dict_get d k dflt = (case map_of d (ascii k) of Some v \<Rightarrow> v | None \<Rightarrow> dflt)"

text \<open>\<open>v.get(key, default)\<close> on any value: only a dictionary has the method.\<close>

definition value_get :: "json \<Rightarrow> string \<Rightarrow> json \<Rightarrow> exn + json" where
  "value_get v k dflt = (case v of JObj d \<Rightarrow> Inr (dict_get d k dflt) | _ \<Rightarrow> Inl AttributeError)"

fun truthy :: "json \<Rightarrow> bool" where
  "truthy JNull = False"
| "truthy (JBool b) = b"
| "truthy (JInt i) = (i \<noteq> 0)"
| "truthy (JFloat f) = (f \<noteq> Finite 0)"
| "truthy (JStr s) = (s \<noteq> [])"
| "truthy (JArr xs) = (xs \<noteq> [])"
| "truthy (JObj d) = (d \<noteq> [])"

text \<open>
  The text an f-string puts for \<open>{v}\<close>. The \<open>repr\<close> of floats, lists and dictionaries
  is Python's own and is taken as the parameter \<open>fmt\<close>.
\<close>

definition format_value :: "(json \<Rightarrow> pystr) \<Rightarrow> json \<Rightarrow> pystr" where
  "format_value fmt v =
     (case v of
        JStr s \<Rightarrow> s
      | JInt i \<Rightarrow> str_int i
      | JBool b \<Rightarrow> (if b then ascii ''True'' else ascii ''False'')
      | JNull \<Rightarrow> ascii ''None''
      | _ \<Rightarrow> fmt v)"

text \<open>\<open>for x in v\<close>: the elements of a list, the characters of a string, the keys of a
  dictionary; anything else is not iterable.\<close>

definition iterate :: "json \<Rightarrow> exn + json list" where
  "iterate v =
     (case v of
        JArr xs \<Rightarrow> Inr xs
      | JStr s \<Rightarrow> Inr (map (\<lambda>c. JStr [c]) s)
      | JObj d \<Rightarrow> Inr (map (\<lambda>kv. JStr (fst kv)) d)
      | _ \<Rightarrow> Inl TypeError)"

text \<open>\<open>v[0]\<close> on a value already known to be truthy.\<close>

definition first_item :: "json \<Rightarrow> exn + json" where
  "first_item v =
     (case v of
        JArr xs \<Rightarrow> (case xs of [] \<Rightarrow> Inl IndexError | x # _ \<Rightarrow> Inr x)
      | JStr s \<Rightarrow> (case s of [] \<Rightarrow> Inl IndexError | c # _ \<Rightarrow> Inr (JStr [c]))
      | JObj d \<Rightarrow> Inl KeyError
      | _ \<Rightarrow> Inl TypeError)"

text \<open>Sequencing inside a \<open>try\<close> block: the first exception ends it.\<close>

definition try_bind :: "exn + 'a \<Rightarrow> ('a \<Rightarrow> exn + 'b) \<Rightarrow> exn + 'b" where
  "try_bind m f = (case m of Inl e \<Rightarrow> Inl e | Inr v \<Rightarrow> f v)"

section \<open>The canonical record\<close>

text \<open>
  The dataclass \<open>ProductData\<close>. The fields \<open>id\<close> and \<open>size\<close> carry a prime, their
  names being taken in HOL. \<open>image_url\<close> holds whatever truthy value the listing gave
  as \<open>src\<close>; \<open>metadata\<close> holds the dictionary that \<open>json.dumps\<close> turns into
  text, the serialisation itself being left out.
\<close>

record ProductData =
  id' :: pystr
  product_url :: pystr
  image_url :: json
  title :: pystr
  gender :: pystr
  price :: pyfloat
  currency :: pystr
  source :: pystr
  affiliate_url :: "pystr option"
  brand :: pystr
  description :: "pystr option"
  category :: "pystr option"
  metadata :: "json option"
  size' :: "pystr option"
  second_hand :: bool
  embedding :: "pyfloat list option"
  country :: pystr
  compressed_image_url :: "pystr option"
  tags :: "pystr list option"

section \<open>\<open>COSDataProcessor.process_product\<close>\<close>

text \<open>
  The Embedding Provider is outside the pipeline: \<open>generate_embedding\<close> catches every
  exception and returns \<open>None\<close>, so it is a parameter \<open>gen\<close> from the image reference
  to an optional vector.
\<close>

type_synonym embedder = "json \<Rightarrow> pyfloat list option"

definition build_product_url :: "(json \<Rightarrow> pystr) \<Rightarrow> pydict \<Rightarrow> pystr" where
  "build_product_url fmt product_json =
     (let uri = dict_get product_json ''uri'' (JStr [])
      in if truthy uri then ascii ''https://www.cos.com/en-eu/'' @ format_value fmt uri else [])"

definition resolve_image :: "pydict \<Rightarrow> exn + json" where
  "resolve_image product_json =
     try_bind (value_get (dict_get product_json ''primaryImage'' (JObj [])) ''src'' (JStr []))
       (\<lambda>image_url.
          if \<not> truthy image_url then
            (let images = dict_get product_json ''images'' (JArr [])
             in if truthy images
                then try_bind (first_item images) (\<lambda>img. value_get img ''src'' (JStr []))
                else Inr image_url)
          else Inr image_url)"

definition extract_title :: "pydict \<Rightarrow> exn + pystr" where
  "extract_title product_json =
     (case dict_get product_json ''name'' (JStr []) of
        JStr s \<Rightarrow> Inr (strip s)
      | _ \<Rightarrow> Inl AttributeError)"

text \<open>\<open>any("men" in cat.lower() for cat in categories)\<close> stops at the first hit.\<close>

fun any_men :: "json list \<Rightarrow> exn + bool" where
  "any_men [] = Inr False"
| "any_men (cat # cats) =
     (case cat of
        JStr s \<Rightarrow> if str_contains (ascii ''men'') (lower s) then Inr True else any_men cats
      | _ \<Rightarrow> Inl AttributeError)"

definition determine_gender :: "json \<Rightarrow> exn + pystr" where
  "determine_gender categories =
     try_bind (iterate categories) (\<lambda>cats.
     try_bind (any_men cats) (\<lambda>found.
       Inr (if found then ascii ''MAN'' else ascii ''WOMAN'')))"

definition extract_price :: "pydict \<Rightarrow> exn + pyfloat" where
  "extract_price product_json =
     (case dict_get product_json ''price'' (JStr []) of
        JStr s \<Rightarrow>
          (let price_str = strip (replace_char 44 (ascii ''.'') (replace_char 8364 [] s))
           in Inr (case float_of_str price_str of Some parsed \<Rightarrow> parsed | None \<Rightarrow> Finite 0))
      | _ \<Rightarrow> Inl AttributeError)"

text \<open>\<open>"/" in category_uri\<close>: a substring test on a string, membership on a list or on
  the keys of a dictionary.\<close>

definition has_slash :: "json \<Rightarrow> exn + bool" where
  "has_slash v =
     (case v of
        JStr s \<Rightarrow> Inr (47 \<in> set s)
      | JArr xs \<Rightarrow> Inr (JStr [47] \<in> set xs)
      | JObj d \<Rightarrow> Inr ([47] \<in> set (map fst d))
      | _ \<Rightarrow> Inl TypeError)"

definition extract_category :: "pydict \<Rightarrow> exn + pystr option" where
  "extract_category product_json =
     (let category_uri = dict_get product_json ''categoryUri'' (JStr [])
      in try_bind (has_slash category_uri) (\<lambda>found.
           if found then
             (case category_uri of
                JStr s \<Rightarrow> Inr (Some (title_case (replace_char 45 (ascii '' '') (last_segment 47 s))))
              | _ \<Rightarrow> Inl AttributeError)
           else Inr None))"

text \<open>\<open>[img.get("src") for img in images if img.get("src")]\<close>\<close>

fun all_images :: "json list \<Rightarrow> exn + json list" where
  "all_images [] = Inr []"
| "all_images (img # imgs) =
     try_bind (value_get img ''src'' JNull) (\<lambda>src.
     try_bind (all_images imgs) (\<lambda>rest.
       Inr (if truthy src then src # rest else rest)))"

definition build_metadata :: "pydict \<Rightarrow> json \<Rightarrow> exn + json" where
  "build_metadata product_json categories =
     try_bind (iterate (dict_get product_json ''images'' (JArr []))) (\<lambda>imgs.
     try_bind (all_images imgs) (\<lambda>srcs.
       Inr (JObj
         [(ascii ''centra_product_id'', dict_get product_json ''centraProductId'' JNull),
          (ascii ''sku'', dict_get product_json ''sku'' JNull),
          (ascii ''product_sku'', dict_get product_json ''product_sku'' JNull),
          (ascii ''variants_count'', dict_get product_json ''variantsCount'' JNull),
          (ascii ''is_new'', dict_get product_json ''isNew'' (JBool False)),
          (ascii ''is_on_sale'', dict_get product_json ''isOnSale'' (JBool False)),
          (ascii ''categories'', categories),
          (ascii ''sustainability_composition'',
             dict_get product_json ''sustainabilityComposition'' (JArr [])),
          (ascii ''all_images'', JArr srcs)])))"

text \<open>The tag loop: one \<open>if\<close>/\<open>elif\<close> chain per category label.\<close>

fun create_tags :: "json list \<Rightarrow> exn + pystr list" where
  "create_tags [] = Inr []"
| "create_tags (cat # cats) =
     (case cat of
        JStr s \<Rightarrow>
          try_bind (create_tags cats) (\<lambda>rest.
            Inr (if str_contains (ascii ''cashmere'') (lower s) then ascii ''cashmere'' # rest
                 else if str_contains (ascii ''wool'') (lower s) then ascii ''wool'' # rest
                 else if str_contains (ascii ''cotton'') (lower s) then ascii ''cotton'' # rest
                 else rest))
      | _ \<Rightarrow> Inl AttributeError)"

text \<open>
  The constructor call \<open>ProductData(id=..., product_url=..., image_url=..., title=...,
  gender=..., price=..., currency=..., category=..., metadata=..., embedding=...,
  tags=...)\<close>: the fields it does not pass take the defaults of the dataclass.
\<close>

definition new_product ::
  "pystr \<Rightarrow> pystr \<Rightarrow> json \<Rightarrow> pystr \<Rightarrow> pystr \<Rightarrow> pyfloat \<Rightarrow> pystr \<Rightarrow> pystr option \<Rightarrow> json option
     \<Rightarrow> pyfloat list option \<Rightarrow> pystr list option \<Rightarrow> ProductData" where
  "new_product id_arg product_url_arg image_url_arg title_arg gender_arg price_arg currency_arg
     category_arg metadata_arg embedding_arg tags_arg =
     \<lparr>id' = id_arg,
      product_url = product_url_arg,
      image_url = image_url_arg,
      title = title_arg,
      gender = gender_arg,
      price = price_arg,
      currency = currency_arg,
      source = ascii ''scraper'',
      affiliate_url = None,
      brand = ascii ''COS'',
      description = None,
      category = category_arg,
      metadata = metadata_arg,
      size' = None,
      second_hand = False,
      embedding = embedding_arg,
      country = ascii ''EU'',
      compressed_image_url = None,
      tags = tags_arg\<rparr>"

text \<open>
  The body of the \<open>try\<close> block: \<open>Inl\<close> is an exception, \<open>Inr None\<close> one of the three
  \<open>return None\<close>, \<open>Inr (Some p)\<close> the constructed record.
\<close>

definition process_product_try ::
  "embedder \<Rightarrow> (json \<Rightarrow> pystr) \<Rightarrow> pydict \<Rightarrow> exn + ProductData option" where
  "process_product_try gen fmt product_json =
     (let product_id = dict_get product_json ''id'' (JStr [])
      in if \<not> truthy product_id then Inr None
         else
           let product_url = build_product_url fmt product_json
           in try_bind (resolve_image product_json) (\<lambda>image_url.
                if \<not> truthy image_url then Inr None
                else
                  try_bind (extract_title product_json) (\<lambda>title.
                    if title = [] then Inr None
                    else
                      let categories = dict_get product_json ''categories'' (JArr [])
                      in try_bind (determine_gender categories) (\<lambda>gender.
                         try_bind (extract_price product_json) (\<lambda>price.
                         try_bind (extract_category product_json) (\<lambda>category.
                         try_bind (build_metadata product_json categories) (\<lambda>metadata.
                           let embedding = gen image_url
                           in try_bind (iterate categories) (\<lambda>cats.
                              try_bind (create_tags cats) (\<lambda>tags.
                                Inr (Some
                                  (new_product
                                     (ascii ''cos_'' @ format_value fmt product_id)
                                     product_url image_url title gender price (ascii ''EUR'')
                                     category (Some metadata) embedding
                                     (if tags \<noteq> [] then Some tags else None))))))))))))"

text \<open>\<open>except Exception\<close>: any exception of the body is logged and becomes \<open>None\<close>.\<close>

definition process_product :: "embedder \<Rightarrow> (json \<Rightarrow> pystr) \<Rightarrow> pydict \<Rightarrow> ProductData option" where
  "process_product gen fmt product_json =
     (case process_product_try gen fmt product_json of Inl e \<Rightarrow> None | Inr r \<Rightarrow> r)"

text \<open>
  \<open>process_json_response\<close>: an item that is not a dictionary has no \<open>get\<close>, and the
  handler of \<open>process_product\<close> calls \<open>get\<close> again, so that exception leaves the loop.
\<close>

fun process_items :: "embedder \<Rightarrow> (json \<Rightarrow> pystr) \<Rightarrow> json list \<Rightarrow> exn + ProductData list" where
  "process_items gen fmt [] = Inr []"
| "process_items gen fmt (item # items) =
     (case item of
        JObj d \<Rightarrow>
          try_bind (process_items gen fmt items) (\<lambda>products.
            Inr (case process_product gen fmt d of None \<Rightarrow> products | Some p \<Rightarrow> p # products))
      | _ \<Rightarrow> Inl AttributeError)"

definition process_json_response ::
  "embedder \<Rightarrow> (json \<Rightarrow> pystr) \<Rightarrow> pydict \<Rightarrow> exn + ProductData list" where
  "process_json_response gen fmt json_data =
     try_bind (iterate (dict_get json_data ''items'' (JArr []))) (process_items gen fmt)"

section \<open>\<open>SupabaseImporter.import_products\<close>\<close>

text \<open>The dictionary sent to the store: the fields of the product and \<open>created_at\<close>.\<close>

record row = ProductData +
  created_at :: pystr

definition product_dict :: "ProductData \<Rightarrow> pystr \<Rightarrow> row" where
  "product_dict product stamp =
     \<lparr>id' = id' product,
      product_url = product_url product,
      image_url = image_url product,
      title = title product,
      gender = gender product,
      price = price product,
      currency = currency product,
      source = source product,
      affiliate_url = affiliate_url product,
      brand = brand product,
      description = description product,
      category = category product,
      metadata = metadata product,
      size' = size' product,
      second_hand = second_hand product,
      embedding = embedding product,
      country = country product,
      compressed_image_url = compressed_image_url product,
      tags = tags product,
      created_at = stamp\<rparr>"

text \<open>
  The same dictionary by column name, with the keys of the source in their order: what a
  store reads when it is told columns by name. Absent values are \<open>None\<close>.
\<close>

definition optional_str :: "pystr option \<Rightarrow> json" where
  "optional_str v = (case v of None \<Rightarrow> JNull | Some s \<Rightarrow> JStr s)"

definition row_columns :: "row \<Rightarrow> pydict" where
  "row_columns r =
     [(ascii ''id'', JStr (id' r)),
      (ascii ''source'', JStr (source r)),
      (ascii ''product_url'', JStr (product_url r)),
      (ascii ''affiliate_url'', optional_str (affiliate_url r)),
      (ascii ''image_url'', image_url r),
      (ascii ''brand'', JStr (brand r)),
      (ascii ''title'', JStr (title r)),
      (ascii ''description'', optional_str (description r)),
      (ascii ''category'', optional_str (category r)),
      (ascii ''gender'', JStr (gender r)),
      (ascii ''price'', JFloat (price r)),
      (ascii ''currency'', JStr (currency r)),
      (ascii ''metadata'', (case metadata r of None \<Rightarrow> JNull | Some m \<Rightarrow> m)),
      (ascii ''size'', optional_str (size' r)),
      (ascii ''second_hand'', JBool (second_hand r)),
      (ascii ''embedding'', (case embedding r of None \<Rightarrow> JNull | Some v \<Rightarrow> JArr (map JFloat v))),
      (ascii ''country'', JStr (country r)),
      (ascii ''compressed_image_url'', optional_str (compressed_image_url r)),
      (ascii ''tags'', (case tags r of None \<Rightarrow> JNull | Some ts \<Rightarrow> JArr (map JStr ts))),
      (ascii ''created_at'', JStr (created_at r))]"

text \<open>
  The store client and the clock are outside the repository. The client stands for
  \<open>self.client.table("products")\<close>; a call of \<open>upsert(row, on_conflict=...).execute()\<close>
  takes the conflict columns and the row, either raises or returns a response whose
  \<open>data\<close> is a list of rows, and may change the world \<open>'w\<close> either way; \<open>utcnow\<close>
  reads the world.
\<close>

datatype outcome = Raised | Returned "row list"

type_synonym 'w clock = "'w \<Rightarrow> pystr"
type_synonym 'w client = "pystr \<Rightarrow> 'w \<Rightarrow> row \<Rightarrow> outcome \<times> 'w"

text \<open>The conflict columns the importer names in every call.\<close>

definition on_conflict :: pystr where
  "on_conflict = ascii ''source,product_url''"

record results =
  inserted :: nat
  updated :: nat
  errors :: nat

definition tally :: "outcome \<Rightarrow> results \<Rightarrow> results" where
  "tally out res =
     (case out of
        Returned data \<Rightarrow>
          if data \<noteq> [] then res\<lparr>inserted := inserted res + 1\<rparr>
          else res\<lparr>errors := errors res + 1\<rparr>
      | Raised \<Rightarrow> res\<lparr>errors := errors res + 1\<rparr>)"

fun import_loop :: "'w clock \<Rightarrow> 'w client \<Rightarrow> ProductData list \<Rightarrow> results \<times> 'w \<Rightarrow> results \<times> 'w" where
  "import_loop utcnow execute [] acc = acc"
| "import_loop utcnow execute (product # products) (res, w) =
     (case execute on_conflict w (product_dict product (utcnow w)) of
        (out, w') \<Rightarrow> import_loop utcnow execute products (tally out res, w'))"

definition import_products :: "'w clock \<Rightarrow> 'w client \<Rightarrow> 'w \<Rightarrow> ProductData list \<Rightarrow> results \<times> 'w" where
  "import_products utcnow execute w products =
     import_loop utcnow execute products (\<lparr>inserted = 0, updated = 0, errors = 0\<rparr>, w)"

text \<open>A client that also keeps the list of the calls made to it, with their outcomes.\<close>

definition recording :: "'w client \<Rightarrow> ('w \<times> (row \<times> outcome) list) client" where
  "recording execute columns wl r =
     (case execute columns (fst wl) r of (out, w') \<Rightarrow> (out, (w', snd wl @ [(r, out)])))"

definition succeeded :: "outcome \<Rightarrow> bool" where
  "succeeded out = (case out of Returned data \<Rightarrow> data \<noteq> [] | Raised \<Rightarrow> False)"

subsection \<open>The store\<close>

text \<open>
  Modelled from the spec: the table behind the Supabase client, which is not part of the
  repository. The specification gives it as write-or-replace on the conflict key: a row
  that agrees with the written row on the conflict columns the call names is replaced as a
  whole, otherwise the row is added; every write succeeds and returns the written row.
  The natural key of the specification is the pair \<open>(source, product_url)\<close>.
\<close>

definition natural_key :: "'a ProductData_scheme \<Rightarrow> pystr \<times> pystr" where
  "natural_key r = (source r, product_url r)"

text \<open>The names in a comma-separated list of columns, and the values a row has in them.\<close>

fun split_on :: "nat \<Rightarrow> pystr \<Rightarrow> pystr list" where
  "split_on sep [] = [[]]"
| "split_on sep (c # cs) =
     (if c = sep then [] # split_on sep cs
      else (case split_on sep cs of [] \<Rightarrow> [[c]] | x # xs \<Rightarrow> (c # x) # xs))"

definition conflict_key :: "pystr \<Rightarrow> row \<Rightarrow> json option list" where
  "conflict_key columns r = map (map_of (row_columns r)) (split_on 44 columns)"

fun upsert_row :: "pystr \<Rightarrow> row \<Rightarrow> row list \<Rightarrow> row list" where
  "upsert_row columns r [] = [r]"
| "upsert_row columns r (x # xs) =
     (if conflict_key columns x = conflict_key columns r then r # xs
      else x # upsert_row columns r xs)"

record store =
  table :: "row list"
  ticks :: nat

definition store_utcnow :: "(nat \<Rightarrow> pystr) \<Rightarrow> store clock" where
  "store_utcnow stamps s = stamps (ticks s)"

definition store_upsert :: "store client" where
  "store_upsert columns s r =
     (Returned [r], \<lparr>table = upsert_row columns r (table s), ticks = ticks s + 1\<rparr>)"

section \<open>\<open>COSScraper\<close>\<close>

text \<open>\<open>products[:n]\<close>, with Python's reading of a negative bound.\<close>

definition slice_to :: "int \<Rightarrow> 'a list \<Rightarrow> 'a list" where
  "slice_to n xs = (if 0 \<le> n then take (nat n) xs else take (nat (int (length xs) + n)) xs)"

text \<open>\<open>if limit: products = products[:limit]\<close>\<close>

definition limit_products :: "int option \<Rightarrow> 'a list \<Rightarrow> 'a list" where
  "limit_products limit products =
     (case limit of
        None \<Rightarrow> products
      | Some n \<Rightarrow> if n \<noteq> 0 then slice_to n products else products)"

text \<open>
  Both entry points take the document their loader returned; an exception of
  \<open>process_json_response\<close> leaves them before the sink is reached.
\<close>

definition scrape_from_json_file ::
  "'w clock \<Rightarrow> 'w client \<Rightarrow> 'w \<Rightarrow> embedder \<Rightarrow> (json \<Rightarrow> pystr) \<Rightarrow> pydict \<Rightarrow> int option
     \<Rightarrow> (exn + results) \<times> 'w" where
  "scrape_from_json_file utcnow execute w gen fmt json_data limit =
     (case process_json_response gen fmt json_data of
        Inl e \<Rightarrow> (Inl e, w)
      | Inr products \<Rightarrow>
          (case import_products utcnow execute w (limit_products limit products) of
             (res, w') \<Rightarrow> (Inr res, w')))"

definition scrape_from_json_url ::
  "'w clock \<Rightarrow> 'w client \<Rightarrow> 'w \<Rightarrow> embedder \<Rightarrow> (json \<Rightarrow> pystr) \<Rightarrow> pydict \<Rightarrow> int option
     \<Rightarrow> (exn + results) \<times> 'w" where
  "scrape_from_json_url utcnow execute w gen fmt json_data limit =
     (case process_json_response gen fmt json_data of
        Inl e \<Rightarrow> (Inl e, w)
      | Inr products \<Rightarrow>
          (case import_products utcnow execute w (limit_products limit products) of
             (res, w') \<Rightarrow> (Inr res, w')))"

section \<open>Reference notions and example data\<close>

text \<open>
  The keyword one category label contributes to the tags, in the words of the tag loop:
  the first of cashmere, wool, cotton that the lower-cased label contains, if any.
\<close>

definition fabric_tag :: "pystr \<Rightarrow> pystr option" where
  "fabric_tag label =
     find (\<lambda>keyword. str_contains keyword (lower label))
       [ascii ''cashmere'', ascii ''wool'', ascii ''cotton'']"

text \<open>
  The rows a run of the sink writes for a batch, the clock being read at tick \<open>n\<close> for
  the first product and one tick later for each following one; and the row a table holds
  for a key.
\<close>

fun rows_from :: "(nat \<Rightarrow> pystr) \<Rightarrow> nat \<Rightarrow> ProductData list \<Rightarrow> row list" where
  "rows_from stamps n [] = []"
| "rows_from stamps n (p # ps) = product_dict p (stamps n) # rows_from stamps (Suc n) ps"

definition stored :: "row list \<Rightarrow> pystr \<times> pystr \<Rightarrow> row option" where
  "stored t k = find (\<lambda>x. natural_key x = k) t"

text \<open>A listing with every required field, for a given price value and category value.\<close>

definition example_listing :: "json \<Rightarrow> json \<Rightarrow> pydict" where
  "example_listing price_value labels =
     [(ascii ''id'', JStr (ascii ''123'')),
      (ascii ''uri'', JStr (ascii ''coat.html'')),
      (ascii ''primaryImage'', JObj [(ascii ''src'', JStr (ascii ''a.jpg''))]),
      (ascii ''name'', JStr (ascii ''Coat'')),
      (ascii ''price'', price_value),
      (ascii ''categories'', labels)]"

definition coat_listing :: pydict where
  "coat_listing = example_listing (JStr (ascii ''199.50'')) (JArr [])"

definition null_price_listing :: pydict where
  "null_price_listing = example_listing JNull (JArr [])"

definition womens_listing :: pydict where
  "womens_listing =
     example_listing (JStr (euro @ ascii ''129,00'')) (JArr [JStr (ascii ''Women's Dresses'')])"

definition wool_listing :: pydict where
  "wool_listing =
     example_listing (JStr (ascii ''199.50''))
       (JArr [JStr (ascii ''Wool Coat''), JStr (ascii ''Wool Scarf'')])"

definition cashmere_listing :: pydict where
  "cashmere_listing =
     example_listing (JStr (ascii ''199.50'')) (JArr [JStr (ascii ''Cashmere Sweater'')])"

text \<open>An Embedding Provider that always fails, and one that always returns a vector.\<close>

definition no_embedding :: embedder where
  "no_embedding img = None"

definition unit_embedding :: embedder where
  "unit_embedding img = Some [Finite 1]"

definition no_repr :: "json \<Rightarrow> pystr" where
  "no_repr v = []"

definition processed :: "embedder \<Rightarrow> pydict \<Rightarrow> ProductData" where
  "processed gen raw = the (process_product gen no_repr raw)"

text \<open>A document of twenty listings that all normalize, and their products.\<close>

definition twenty_listings :: pydict where
  "twenty_listings =
     [(ascii ''items'',
       JArr (JObj wool_listing # JObj womens_listing # replicate 18 (JObj coat_listing)))]"

definition twenty_products :: "ProductData list" where
  "twenty_products =
     processed no_embedding wool_listing # processed no_embedding womens_listing
       # replicate 18 (processed no_embedding coat_listing)"

definition empty_store :: store where
  "empty_store = \<lparr>table = [], ticks = 0\<rparr>"

definition no_stamp :: "nat \<Rightarrow> pystr" where
  "no_stamp n = []"

section \<open>Auxiliary facts\<close>

lemma try_bind_simps [simp]:
  "try_bind (Inl e) f = Inl e"
  "try_bind (Inr v) f = f v"
  by (simp_all add: try_bind_def)

lemmas string_eval = strip_def isspace_def lower_def lower_char_def upper_char_def is_upper_def
  is_lower_def is_digit_def replace_char_def last_segment_def title_case_def str_int_def euro_def

lemmas float_eval = float_of_str_def parse_signed_def parse_decimal_def parse_exponent_def
  float_space_def digits_value_def pow10_def

lemmas json_eval = dict_get_def value_get_def format_value_def iterate_def first_item_def

lemmas stage_eval = build_product_url_def resolve_image_def extract_title_def
  determine_gender_def extract_price_def has_slash_def extract_category_def build_metadata_def
  new_product_def process_product_try_def process_product_def

lemmas example_eval = example_listing_def no_embedding_def no_repr_def unit_embedding_def
  stage_eval json_eval string_eval float_eval Let_def

lemma some_the: "x \<noteq> None \<Longrightarrow> x = Some (the x)"
  by simp

lemma process_product_stages:
  "process_product gen fmt raw = Some p \<longleftrightarrow>
     (\<exists>img ttl gnd prc cat meta cats tgs.
        truthy (dict_get raw ''id'' (JStr []))
      \<and> resolve_image raw = Inr img \<and> truthy img
      \<and> extract_title raw = Inr ttl \<and> ttl \<noteq> []
      \<and> determine_gender (dict_get raw ''categories'' (JArr [])) = Inr gnd
      \<and> extract_price raw = Inr prc
      \<and> extract_category raw = Inr cat
      \<and> build_metadata raw (dict_get raw ''categories'' (JArr [])) = Inr meta
      \<and> iterate (dict_get raw ''categories'' (JArr [])) = Inr cats
      \<and> create_tags cats = Inr tgs
      \<and> p = new_product (ascii ''cos_'' @ format_value fmt (dict_get raw ''id'' (JStr [])))
                (build_product_url fmt raw) img ttl gnd prc (ascii ''EUR'') cat (Some meta)
                (gen img) (if tgs \<noteq> [] then Some tgs else None))"
  unfolding process_product_def process_product_try_def Let_def
  by (auto simp: try_bind_def split: sum.splits if_splits)

lemma truncate_product_dict: "ProductData.truncate (product_dict p stamp) = p"
  by (simp add: product_dict_def ProductData.truncate_def)

lemma tally_updated: "updated (tally out res) = updated res"
  by (simp add: tally_def split: outcome.splits)

lemma tally_inserted: "inserted (tally out res) = inserted res + (if succeeded out then 1 else 0)"
  by (simp add: tally_def succeeded_def split: outcome.splits)

lemma tally_errors: "errors (tally out res) = errors res + (if succeeded out then 0 else 1)"
  by (simp add: tally_def succeeded_def split: outcome.splits)

lemma recording_apply:
  "recording execute columns (w, calls) r =
     (case execute columns w r of (out, w') \<Rightarrow> (out, (w', calls @ [(r, out)])))"
  by (simp add: recording_def)

lemma import_loop_recording:
  "import_loop (\<lambda>wl. utcnow (fst wl)) (recording execute) products (res, (w, calls))
     = (res', (w', calls'))
   \<Longrightarrow> import_loop utcnow execute products (res, w) = (res', w')
     \<and> (\<exists>new. calls' = calls @ new
          \<and> map (\<lambda>e. ProductData.truncate (fst e)) new = products
          \<and> inserted res' = inserted res + length (filter (\<lambda>e. succeeded (snd e)) new)
          \<and> errors res' = errors res + length (filter (\<lambda>e. \<not> succeeded (snd e)) new)
          \<and> updated res' = updated res)"
proof (induction products arbitrary: res w calls)
  case Nil
  then show ?case by simp
next
  case (Cons p ps)
  obtain out w1 where ex: "execute on_conflict w (product_dict p (utcnow w)) = (out, w1)"
    by (cases "execute on_conflict w (product_dict p (utcnow w))")
  from Cons.prems ex have
    "import_loop (\<lambda>wl. utcnow (fst wl)) (recording execute) ps
       (tally out res, (w1, calls @ [(product_dict p (utcnow w), out)])) = (res', (w', calls'))"
    by (simp add: recording_apply)
  from Cons.IH [OF this] ex show ?case
    by (auto simp: truncate_product_dict tally_inserted tally_errors tally_updated)
qed

lemma import_single:
  "execute on_conflict w (product_dict p (utcnow w)) = (out, w') \<Longrightarrow> succeeded out \<Longrightarrow>
     import_products utcnow execute w [p] = (\<lparr>inserted = 1, updated = 0, errors = 0\<rparr>, w')"
  by (auto simp: import_products_def tally_def succeeded_def split: outcome.splits)

lemma store_accepts:
  "store_upsert columns s r
     = (Returned [r], \<lparr>table = upsert_row columns r (table s), ticks = ticks s + 1\<rparr>)
   \<and> succeeded (Returned [r])"
  by (simp add: store_upsert_def succeeded_def)

lemma str_contains_sublist: "str_contains sub s \<longleftrightarrow> sublist sub s"
  by (induction s) (simp_all add: sublist_Cons_right)

lemma lower_sublist: "sublist mid label \<Longrightarrow> sublist (lower mid) (lower label)"
  unfolding lower_def by (rule map_mono_sublist)

lemma create_tags_labels:
  "create_tags cats = Inr tgs \<Longrightarrow>
     \<exists>labels. cats = map JStr labels \<and> tgs = List.map_filter fabric_tag labels"
proof (induction cats arbitrary: tgs)
  case Nil
  then show ?case by (simp add: List.map_filter_simps)
next
  case (Cons cat cats)
  from Cons.prems obtain s rest where cat: "cat = JStr s" and rest: "create_tags cats = Inr rest"
    by (auto simp: try_bind_def split: json.splits sum.splits)
  from Cons.IH [OF rest] obtain labels where
    labels: "cats = map JStr labels" "rest = List.map_filter fabric_tag labels"
    by blast
  have a: "cat # cats = map JStr (s # labels)"
    using cat labels by simp
  have b: "tgs = List.map_filter fabric_tag (s # labels)"
    using Cons.prems cat rest labels
    by (auto simp: List.map_filter_simps fabric_tag_def)
  show ?case
    by (rule exI [of _ "s # labels"]) (simp only: a b)
qed

lemma any_men_labels:
  "any_men (map JStr labels) = Inr (list_ex (\<lambda>l. str_contains (ascii ''men'') (lower l)) labels)"
  by (induction labels) auto

lemma process_product_labels:
  assumes "process_product gen fmt raw = Some p"
  shows "\<exists>labels. iterate (dict_get raw ''categories'' (JArr [])) = Inr (map JStr labels)
           \<and> gender p = (if list_ex (\<lambda>l. str_contains (ascii ''men'') (lower l)) labels
                          then ascii ''MAN'' else ascii ''WOMAN'')
           \<and> tags p = (if List.map_filter fabric_tag labels = [] then None
                        else Some (List.map_filter fabric_tag labels))"
proof -
  from assms obtain img ttl gnd prc cat meta cats tgs where
    g: "determine_gender (dict_get raw ''categories'' (JArr [])) = Inr gnd"
    and it: "iterate (dict_get raw ''categories'' (JArr [])) = Inr cats"
    and tg: "create_tags cats = Inr tgs"
    and p: "p = new_product (ascii ''cos_'' @ format_value fmt (dict_get raw ''id'' (JStr [])))
                (build_product_url fmt raw) img ttl gnd prc (ascii ''EUR'') cat (Some meta)
                (gen img) (if tgs \<noteq> [] then Some tgs else None)"
    unfolding process_product_stages by blast
  from create_tags_labels [OF tg] obtain labels where
    l: "cats = map JStr labels" "tgs = List.map_filter fabric_tag labels" by blast
  have "gnd = (if list_ex (\<lambda>l. str_contains (ascii ''men'') (lower l)) labels
               then ascii ''MAN'' else ascii ''WOMAN'')"
    using g it l by (simp add: determine_gender_def any_men_labels)
  then show ?thesis
    using it l p by (auto simp: new_product_def)
qed

lemma coat_ok: "process_product gen no_repr coat_listing = Some (processed gen coat_listing)"
  unfolding processed_def coat_listing_def
  by (rule some_the) (simp add: example_eval)

lemma coat_fields:
  "id' (processed gen coat_listing) = ascii ''cos_123''"
  "source (processed gen coat_listing) = ascii ''scraper''"
  "image_url (processed gen coat_listing) = JStr (ascii ''a.jpg'')"
  "embedding (processed gen coat_listing) = gen (JStr (ascii ''a.jpg''))"
  "price (processed gen coat_listing) = Finite (399 / 2)"
  "gender (processed gen coat_listing) = ascii ''WOMAN''"
  "tags (processed gen coat_listing) = None"
  unfolding processed_def coat_listing_def
  by (simp_all add: example_eval)

lemma coat_id: "map_of coat_listing (ascii ''id'') = Some (JStr (ascii ''123''))"
  by (simp add: coat_listing_def example_listing_def)

lemma womens_ok: "process_product gen no_repr womens_listing = Some (processed gen womens_listing)"
  unfolding processed_def womens_listing_def
  by (rule some_the) (simp add: example_eval)

lemma womens_fields:
  "gender (processed gen womens_listing) = ascii ''MAN''"
  "price (processed gen womens_listing) = Finite 129"
  unfolding processed_def womens_listing_def
  by (simp_all add: example_eval)

lemma womens_categories:
  "dict_get womens_listing ''categories'' (JArr []) = JArr [JStr (ascii ''Women's Dresses'')]"
  by (simp add: womens_listing_def example_listing_def dict_get_def)

lemma wool_ok: "process_product gen no_repr wool_listing = Some (processed gen wool_listing)"
  unfolding processed_def wool_listing_def
  by (rule some_the) (simp add: example_eval)

lemma wool_tags: "tags (processed gen wool_listing) = Some [ascii ''wool'', ascii ''wool'']"
  unfolding processed_def wool_listing_def
  by (simp add: example_eval)

lemma cashmere_ok:
  "process_product gen no_repr cashmere_listing = Some (processed gen cashmere_listing)"
  unfolding processed_def cashmere_listing_def
  by (rule some_the) (simp add: example_eval)

lemma cashmere_categories:
  "dict_get cashmere_listing ''categories'' (JArr []) = JArr [JStr (ascii ''Cashmere Sweater'')]"
  by (simp add: cashmere_listing_def example_listing_def dict_get_def)

lemma cashmere_sweater_tag: "fabric_tag (ascii ''Cashmere Sweater'') = Some (ascii ''cashmere'')"
  by (simp add: fabric_tag_def string_eval)

lemma men_in_women: "sublist (ascii ''men'') (ascii ''Women's Dresses'')"
  by (simp add: sublist_code)

lemma lower_men: "lower (ascii ''men'') = ascii ''men''"
  by (simp add: string_eval)

lemma map_filter_member:
  "x \<in> set xs \<Longrightarrow> f x = Some y \<Longrightarrow> y \<in> set (List.map_filter f xs)"
  by (induction xs) (auto split: option.splits)

text \<open>
  What the price step does with price text: the two prices the specification names, and
  text that does not parse, an empty string and a missing key, which all give 0.0.
\<close>

lemma price_text_examples:
  "map_option price (process_product gen no_repr
      (example_listing (JStr (euro @ ascii ''129,00'')) (JArr []))) = Some (Finite 129)"
  "map_option price (process_product gen no_repr
      (example_listing (JStr (ascii ''199.50'')) (JArr []))) = Some (Finite (399 / 2))"
  "map_option price (process_product gen no_repr
      (example_listing (JStr []) (JArr []))) = Some (Finite 0)"
  "map_option price (process_product gen no_repr
      (example_listing (JStr (ascii ''sold out'')) (JArr []))) = Some (Finite 0)"
  "map_option price (process_product gen no_repr
      (example_listing (JStr (ascii ''1.299,00'')) (JArr []))) = Some (Finite 0)"
  "map_option price (process_product gen no_repr
      (filter (\<lambda>kv. fst kv \<noteq> ascii ''price'') coat_listing)) = Some (Finite 0)"
  by (simp_all add: example_eval coat_listing_def)

text \<open>The two category lists the specification names for the gender heuristic.\<close>

lemma gender_examples:
  "map_option gender (process_product gen no_repr
      (example_listing (JStr []) (JArr [JStr (ascii ''Men's Knitwear'')]))) = Some (ascii ''MAN'')"
  "map_option gender (process_product gen no_repr
      (example_listing (JStr []) (JArr [JStr (ascii ''Dresses'')]))) = Some (ascii ''WOMAN'')"
  by (simp_all add: example_eval)

lemma split_on_conflict: "split_on 44 on_conflict = [ascii ''source'', ascii ''product_url'']"
  by (simp add: on_conflict_def)

lemma conflict_key_natural:
  "conflict_key on_conflict r = [Some (JStr (source r)), Some (JStr (product_url r))]"
  by (simp add: conflict_key_def split_on_conflict row_columns_def)

lemma conflict_natural [simp]:
  "conflict_key on_conflict x = conflict_key on_conflict r \<longleftrightarrow> natural_key x = natural_key r"
  by (auto simp: conflict_key_natural natural_key_def)

lemma stored_upsert:
  "stored (upsert_row on_conflict r t) k = (if k = natural_key r then Some r else stored t k)"
  by (induction t) (auto simp: stored_def)

lemma keys_upsert:
  "map natural_key (upsert_row on_conflict r t) =
     (if natural_key r \<in> natural_key ` set t then map natural_key t
      else map natural_key t @ [natural_key r])"
  by (induction t) auto

lemma key_set_upsert:
  "natural_key ` set (upsert_row on_conflict r t) = insert (natural_key r) (natural_key ` set t)"
  by (induction t) auto

lemma find_app:
  "List.find P (xs @ ys) = (case List.find P xs of None \<Rightarrow> List.find P ys | Some x \<Rightarrow> Some x)"
  by (induction xs) auto

lemma keys_fold_cong:
  "map natural_key rs1 = map natural_key rs2 \<Longrightarrow> map natural_key t1 = map natural_key t2 \<Longrightarrow>
     map natural_key (fold (upsert_row on_conflict) rs1 t1) = map natural_key (fold (upsert_row on_conflict) rs2 t2)"
proof (induction rs1 arbitrary: rs2 t1 t2)
  case Nil
  then show ?case by simp
next
  case (Cons r1 rs1)
  from Cons.prems(1) obtain r2 rs2' where rs2: "rs2 = r2 # rs2'"
    and k: "natural_key r1 = natural_key r2" and ks: "map natural_key rs1 = map natural_key rs2'"
    by (cases rs2) auto
  from Cons.prems(2) have "natural_key ` set t1 = natural_key ` set t2"
    by (metis list.set_map)
  then have "map natural_key (upsert_row on_conflict r1 t1) = map natural_key (upsert_row on_conflict r2 t2)"
    unfolding keys_upsert using k Cons.prems(2) by simp
  from Cons.IH [OF ks this] show ?case
    using rs2 by simp
qed

lemma keys_fold_known:
  "natural_key ` set rs \<subseteq> natural_key ` set t \<Longrightarrow>
     map natural_key (fold (upsert_row on_conflict) rs t) = map natural_key t"
proof (induction rs arbitrary: t)
  case Nil
  then show ?case by simp
next
  case (Cons r rs)
  from Cons.prems have k: "map natural_key (upsert_row on_conflict r t) = map natural_key t"
    unfolding keys_upsert by simp
  from Cons.prems have "natural_key ` set rs \<subseteq> natural_key ` set (upsert_row on_conflict r t)"
    unfolding key_set_upsert by auto
  from Cons.IH [OF this] k show ?case by simp
qed

lemma keys_fold_set:
  "natural_key ` set (fold (upsert_row on_conflict) rs t) = natural_key ` set t \<union> natural_key ` set rs"
proof (induction rs arbitrary: t)
  case Nil
  then show ?case by simp
next
  case (Cons r rs)
  from Cons.IH [of "upsert_row on_conflict r t"] show ?case
    unfolding key_set_upsert by auto
qed

lemma distinct_upsert:
  "distinct (map natural_key t) \<Longrightarrow> distinct (map natural_key (upsert_row on_conflict r t))"
  unfolding keys_upsert by simp

lemma distinct_fold:
  "distinct (map natural_key t) \<Longrightarrow> distinct (map natural_key (fold (upsert_row on_conflict) rs t))"
  by (induction rs arbitrary: t) (simp_all add: distinct_upsert)

lemma stored_fold:
  "stored (fold (upsert_row on_conflict) rs t) k = (case stored (rev rs) k of Some r \<Rightarrow> Some r | None \<Rightarrow> stored t k)"
proof (induction rs arbitrary: t)
  case Nil
  then show ?case by (simp add: stored_def)
next
  case (Cons r rs)
  have "stored (rev (r # rs)) k
        = (case stored (rev rs) k of Some x \<Rightarrow> Some x
           | None \<Rightarrow> if k = natural_key r then Some r else None)"
    by (auto simp: stored_def find_app split: option.splits)
  with Cons.IH [of "upsert_row on_conflict r t"] show ?case
    by (simp add: stored_upsert split: option.splits)
qed

lemma stored_None: "stored t k = None \<longleftrightarrow> k \<notin> natural_key ` set t"
  by (auto simp: stored_def find_None_iff)

lemma table_ext:
  "distinct (map natural_key t1) \<Longrightarrow> map natural_key t1 = map natural_key t2 \<Longrightarrow>
     (\<And>k. stored t1 k = stored t2 k) \<Longrightarrow> t1 = t2"
proof (induction t1 arbitrary: t2)
  case Nil
  then show ?case by simp
next
  case (Cons x xs)
  from Cons.prems(2) obtain y ys where t2: "t2 = y # ys"
    and k: "natural_key x = natural_key y" and ks: "map natural_key xs = map natural_key ys"
    by (cases t2) auto
  from Cons.prems(3) [of "natural_key x"] t2 k have xy: "x = y"
    by (simp add: stored_def)
  have "stored xs k' = stored ys k'" for k'
  proof (cases "k' = natural_key x")
    case True
    with Cons.prems(1) have n: "k' \<notin> natural_key ` set xs" by simp
    from ks have "natural_key ` set xs = natural_key ` set ys"
      by (metis list.set_map)
    with n show ?thesis by (simp add: stored_None [THEN iffD2])
  next
    case False
    with Cons.prems(3) [of k'] t2 k show ?thesis by (simp add: stored_def)
  qed
  with Cons.IH [of ys] Cons.prems(1) ks have "xs = ys" by simp
  with xy t2 show ?case by simp
qed

lemma keys_rows_from: "map natural_key (rows_from stamps n ps) = map natural_key ps"
  by (induction ps arbitrary: n) (simp_all add: natural_key_def product_dict_def)

lemma import_loop_store:
  "import_loop (store_utcnow stamps) store_upsert ps (res, s) =
     (\<lparr>inserted = inserted res + length ps, updated = updated res, errors = errors res\<rparr>,
      \<lparr>table = fold (upsert_row on_conflict) (rows_from stamps (ticks s) ps) (table s),
       ticks = ticks s + length ps\<rparr>)"
  by (induction ps arbitrary: res s)
     (simp_all add: store_upsert_def store_utcnow_def tally_def)

lemma import_products_store:
  "import_products (store_utcnow stamps) store_upsert s ps =
     (\<lparr>inserted = length ps, updated = 0, errors = 0\<rparr>,
      \<lparr>table = fold (upsert_row on_conflict) (rows_from stamps (ticks s) ps) (table s),
       ticks = ticks s + length ps\<rparr>)"
  by (simp add: import_products_def import_loop_store)

lemma upsert_twice:
  assumes d: "distinct (map natural_key t)"
    and ks: "map natural_key rs1 = map natural_key rs2"
  shows "fold (upsert_row on_conflict) rs2 (fold (upsert_row on_conflict) rs1 t) = fold (upsert_row on_conflict) rs2 t"
proof (rule table_ext)
  show "distinct (map natural_key (fold (upsert_row on_conflict) rs2 (fold (upsert_row on_conflict) rs1 t)))"
    using d by (simp add: distinct_fold)
  have "map natural_key (fold (upsert_row on_conflict) rs2 (fold (upsert_row on_conflict) rs1 t))
        = map natural_key (fold (upsert_row on_conflict) rs1 t)"
  proof (rule keys_fold_known)
    from ks have "natural_key ` set rs1 = natural_key ` set rs2"
      by (metis list.set_map)
    then show "natural_key ` set rs2 \<subseteq> natural_key ` set (fold (upsert_row on_conflict) rs1 t)"
      unfolding keys_fold_set by simp
  qed
  also have "\<dots> = map natural_key (fold (upsert_row on_conflict) rs2 t)"
    by (rule keys_fold_cong [OF ks refl])
  finally show "map natural_key (fold (upsert_row on_conflict) rs2 (fold (upsert_row on_conflict) rs1 t))
        = map natural_key (fold (upsert_row on_conflict) rs2 t)" .
  fix k
  show "stored (fold (upsert_row on_conflict) rs2 (fold (upsert_row on_conflict) rs1 t)) k = stored (fold (upsert_row on_conflict) rs2 t) k"
  proof (cases "stored (rev rs2) k")
    case None
    then have "k \<notin> natural_key ` set rs2"
      by (simp add: stored_None)
    moreover from ks have "natural_key ` set rs1 = natural_key ` set rs2"
      by (metis list.set_map)
    ultimately have "stored (rev rs1) k = None"
      by (simp add: stored_None)
    with None show ?thesis by (simp add: stored_fold)
  next
    case (Some r)
    then show ?thesis by (simp add: stored_fold)
  qed
qed

lemma key_truncate: "natural_key (ProductData.truncate r) = natural_key r"
  by (simp add: natural_key_def ProductData.truncate_def)

lemma upsert_truncate:
  assumes "ProductData.truncate r1 = ProductData.truncate r2"
  shows "map ProductData.truncate t1 = map ProductData.truncate t2 \<Longrightarrow>
     map ProductData.truncate (upsert_row on_conflict r1 t1) = map ProductData.truncate (upsert_row on_conflict r2 t2)"
proof (induction t1 arbitrary: t2)
  case Nil
  then show ?case using assms by simp
next
  case (Cons x xs)
  from Cons.prems obtain y ys where t2: "t2 = y # ys"
    and xy: "ProductData.truncate x = ProductData.truncate y"
    and r: "map ProductData.truncate xs = map ProductData.truncate ys"
    by (cases t2) auto
  from xy have kx: "natural_key x = natural_key y" by (metis key_truncate)
  from assms have kr: "natural_key r1 = natural_key r2" by (metis key_truncate)
  show ?case
    using Cons.IH [OF r] t2 xy r kx kr assms by simp
qed

lemma fold_upsert_truncate:
  "map ProductData.truncate rs1 = map ProductData.truncate rs2 \<Longrightarrow>
   map ProductData.truncate t1 = map ProductData.truncate t2 \<Longrightarrow>
     map ProductData.truncate (fold (upsert_row on_conflict) rs1 t1)
       = map ProductData.truncate (fold (upsert_row on_conflict) rs2 t2)"
proof (induction rs1 arbitrary: rs2 t1 t2)
  case Nil
  then show ?case by simp
next
  case (Cons r1 rs1)
  from Cons.prems(1) obtain r2 rs2' where rs2: "rs2 = r2 # rs2'"
    and r: "ProductData.truncate r1 = ProductData.truncate r2"
    and rs: "map ProductData.truncate rs1 = map ProductData.truncate rs2'"
    by (cases rs2) auto
  from Cons.IH [OF rs upsert_truncate [OF r Cons.prems(2)]] rs2 show ?case by simp
qed

lemma truncate_rows_from: "map ProductData.truncate (rows_from stamps n ps) = ps"
  by (induction ps arbitrary: n) (simp_all add: truncate_product_dict)

lemma find_mapped:
  "List.find Q (map f xs) = map_option f (List.find (\<lambda>x. Q (f x)) xs)"
  by (induction xs) auto

lemma stored_rows_from:
  "map_option ProductData.truncate (stored (rev (rows_from stamps n ps)) k)
     = List.find (\<lambda>p. natural_key p = k) (rev ps)"
proof -
  have "rev ps = map ProductData.truncate (rev (rows_from stamps n ps))"
    by (simp add: rev_map [symmetric] truncate_rows_from)
  then show ?thesis
    by (simp add: stored_def find_mapped key_truncate)
qed

lemma second_run_changes_stamps_only:
  assumes "distinct (map natural_key t)"
  shows "map ProductData.truncate
           (fold (upsert_row on_conflict) (rows_from stamps m ps) (fold (upsert_row on_conflict) (rows_from stamps n ps) t))
         = map ProductData.truncate (fold (upsert_row on_conflict) (rows_from stamps n ps) t)"
proof -
  have "fold (upsert_row on_conflict) (rows_from stamps m ps) (fold (upsert_row on_conflict) (rows_from stamps n ps) t)
        = fold (upsert_row on_conflict) (rows_from stamps m ps) t"
    by (rule upsert_twice [OF assms]) (simp add: keys_rows_from)
  moreover have "map ProductData.truncate (fold (upsert_row on_conflict) (rows_from stamps m ps) t)
        = map ProductData.truncate (fold (upsert_row on_conflict) (rows_from stamps n ps) t)"
    by (rule fold_upsert_truncate) (simp_all add: truncate_rows_from)
  ultimately show ?thesis by simp
qed

lemma recorded_products:
  "map (\<lambda>e. ProductData.truncate (fst e))
       (snd (snd (import_products (\<lambda>wl. utcnow (fst wl)) (recording execute) (w, []) ps))) = ps"
proof -
  obtain res w' calls where run:
    "import_products (\<lambda>wl. utcnow (fst wl)) (recording execute) (w, []) ps = (res, (w', calls))"
    by (metis surj_pair)
  from import_loop_recording [OF run [unfolded import_products_def]] run
  show ?thesis by auto
qed

lemma scrape_file_eq:
  "process_json_response gen fmt json_data = Inr products \<Longrightarrow>
     scrape_from_json_file utcnow execute w gen fmt json_data limit
       = (case import_products utcnow execute w (limit_products limit products) of
            (res, w') \<Rightarrow> (Inr res, w'))"
  by (simp add: scrape_from_json_file_def)

lemma scrape_url_eq:
  "process_json_response gen fmt json_data = Inr products \<Longrightarrow>
     scrape_from_json_url utcnow execute w gen fmt json_data limit
       = (case import_products utcnow execute w (limit_products limit products) of
            (res, w') \<Rightarrow> (Inr res, w'))"
  by (simp add: scrape_from_json_url_def)

lemma scrape_file_recorded:
  "process_json_response gen fmt json_data = Inr products \<Longrightarrow>
     map (\<lambda>e. ProductData.truncate (fst e))
       (snd (snd (scrape_from_json_file (\<lambda>wl. utcnow (fst wl)) (recording execute) (w, [])
                    gen fmt json_data limit)))
       = limit_products limit products"
  using recorded_products [of utcnow execute w "limit_products limit products"]
  by (auto simp: scrape_file_eq split: prod.splits)

lemma scrape_url_recorded:
  "process_json_response gen fmt json_data = Inr products \<Longrightarrow>
     map (\<lambda>e. ProductData.truncate (fst e))
       (snd (snd (scrape_from_json_url (\<lambda>wl. utcnow (fst wl)) (recording execute) (w, [])
                    gen fmt json_data limit)))
       = limit_products limit products"
  using recorded_products [of utcnow execute w "limit_products limit products"]
  by (auto simp: scrape_url_eq split: prod.splits)

lemma process_items_coats:
  "process_items gen no_repr (replicate n (JObj coat_listing))
     = Inr (replicate n (processed gen coat_listing))"
  by (induction n) (simp_all add: coat_ok)

lemma twenty_ok:
  "process_json_response no_embedding no_repr twenty_listings = Inr twenty_products"
  by (simp add: process_json_response_def twenty_listings_def twenty_products_def dict_get_def
      iterate_def process_items_coats wool_ok womens_ok)

lemma twenty_length: "length twenty_products = 20"
  by (simp add: twenty_products_def)

lemma twenty_first_five:
  "take 5 twenty_products =
     [processed no_embedding wool_listing, processed no_embedding womens_listing,
      processed no_embedding coat_listing, processed no_embedding coat_listing,
      processed no_embedding coat_listing]"
  by (simp add: twenty_products_def numeral_eq_Suc)

section \<open>The sink\<close>

text \<open>
  Claim C8. For every batch, every clock and every behaviour of the store client, the
  client is called once for each product of the batch, in order, also after a call that
  raised; a call that raised or returned no data adds one to \<open>errors\<close>, any other call
  adds one to \<open>inserted\<close>, \<open>updated\<close> stays 0, and \<open>inserted + errors\<close> is the number of
  products. The calls are read off a client that records them and otherwise behaves as the
  given one.
\<close>

theorem import_products_isolates_each_record:
  "case import_products (\<lambda>wl. utcnow (fst wl)) (recording execute) (w, []) products of
     (res, (w', calls)) \<Rightarrow>
        import_products utcnow execute w products = (res, w')
      \<and> map (\<lambda>e. ProductData.truncate (fst e)) calls = products
      \<and> inserted res = length (filter (\<lambda>e. succeeded (snd e)) calls)
      \<and> errors res = length (filter (\<lambda>e. \<not> succeeded (snd e)) calls)
      \<and> updated res = 0
      \<and> inserted res + errors res = length products"
proof -
  obtain res w' calls where run:
    "import_products (\<lambda>wl. utcnow (fst wl)) (recording execute) (w, []) products
       = (res, (w', calls))"
    by (metis surj_pair)
  from import_loop_recording [OF run [unfolded import_products_def]]
  have a: "import_products utcnow execute w products = (res, w')"
    and b: "map (\<lambda>e. ProductData.truncate (fst e)) calls = products"
    and c: "inserted res = length (filter (\<lambda>e. succeeded (snd e)) calls)"
    and d: "errors res = length (filter (\<lambda>e. \<not> succeeded (snd e)) calls)"
    and u: "updated res = 0"
    by (auto simp: import_products_def)
  have "length (filter (\<lambda>e. succeeded (snd e)) calls)
          + length (filter (\<lambda>e. \<not> succeeded (snd e)) calls) = length calls"
    by (rule sum_length_filter_compl)
  moreover have "length calls = length products"
    using b by (metis length_map)
  ultimately have "inserted res + errors res = length products"
    using c d by simp
  with run a b c d u show ?thesis by simp
qed

section \<open>The normalizer\<close>

text \<open>
  Claim C2. Whether a listing is normalized does not depend on the Embedding Provider:
  if the listing yields the product \<open>p0\<close> under some provider \<open>gen0\<close>, and the provider
  \<open>gen\<close> fails on the image reference of the listing, then under \<open>gen\<close> the listing
  still yields a product, namely \<open>p0\<close> with \<open>embedding\<close> absent. When the sink writes
  that product and the store returns data for it, \<open>inserted\<close> is incremented for it.
\<close>

theorem embedding_failure_keeps_record:
  assumes "process_product gen0 fmt raw = Some p0"
    and "gen (image_url p0) = None"
  shows "process_product gen fmt raw = Some (p0\<lparr>embedding := None\<rparr>)
       \<and> (execute on_conflict w (product_dict (p0\<lparr>embedding := None\<rparr>) (utcnow w)) = (out, w')
            \<and> succeeded out
            \<longrightarrow> import_products utcnow execute w [p0\<lparr>embedding := None\<rparr>]
                  = (\<lparr>inserted = 1, updated = 0, errors = 0\<rparr>, w'))"
proof (rule conjI)
  from assms(1) obtain img ttl gnd prc cat meta cats tgs where
    st: "truthy (dict_get raw ''id'' (JStr []))"
      "resolve_image raw = Inr img" "truthy img"
      "extract_title raw = Inr ttl" "ttl \<noteq> []"
      "determine_gender (dict_get raw ''categories'' (JArr [])) = Inr gnd"
      "extract_price raw = Inr prc"
      "extract_category raw = Inr cat"
      "build_metadata raw (dict_get raw ''categories'' (JArr [])) = Inr meta"
      "iterate (dict_get raw ''categories'' (JArr [])) = Inr cats"
      "create_tags cats = Inr tgs"
    and p0: "p0 = new_product (ascii ''cos_'' @ format_value fmt (dict_get raw ''id'' (JStr [])))
                (build_product_url fmt raw) img ttl gnd prc (ascii ''EUR'') cat (Some meta)
                (gen0 img) (if tgs \<noteq> [] then Some tgs else None)"
    unfolding process_product_stages by blast
  from p0 have "image_url p0 = img" by (simp add: new_product_def)
  with assms(2) have "gen img = None" by simp
  with p0 have "p0\<lparr>embedding := None\<rparr>
      = new_product (ascii ''cos_'' @ format_value fmt (dict_get raw ''id'' (JStr [])))
                (build_product_url fmt raw) img ttl gnd prc (ascii ''EUR'') cat (Some meta)
                (gen img) (if tgs \<noteq> [] then Some tgs else None)"
    by (simp add: new_product_def)
  with st show "process_product gen fmt raw = Some (p0\<lparr>embedding := None\<rparr>)"
    unfolding process_product_stages by blast
next
  show "execute on_conflict w (product_dict (p0\<lparr>embedding := None\<rparr>) (utcnow w)) = (out, w')
            \<and> succeeded out
            \<longrightarrow> import_products utcnow execute w [p0\<lparr>embedding := None\<rparr>]
                  = (\<lparr>inserted = 1, updated = 0, errors = 0\<rparr>, w')"
    by (intro impI, elim conjE) (rule import_single)
qed

text \<open>
  The example listing under a provider that returns a vector and under one that fails,
  written to the empty store.
\<close>

theorem embedding_failure_keeps_record_witness:
  "process_product unit_embedding no_repr coat_listing = Some (processed unit_embedding coat_listing)
   \<and> no_embedding (image_url (processed unit_embedding coat_listing)) = None
   \<and> process_product no_embedding no_repr coat_listing
       = Some ((processed unit_embedding coat_listing)\<lparr>embedding := None\<rparr>)
   \<and> fst (import_products (store_utcnow no_stamp) store_upsert empty_store
             [(processed unit_embedding coat_listing)\<lparr>embedding := None\<rparr>])
       = \<lparr>inserted = 1, updated = 0, errors = 0\<rparr>"
proof -
  have h1: "process_product unit_embedding no_repr coat_listing
              = Some (processed unit_embedding coat_listing)"
    by (rule coat_ok)
  have h2: "no_embedding (image_url (processed unit_embedding coat_listing)) = None"
    by (simp add: no_embedding_def)
  note c = embedding_failure_keeps_record
      [of unit_embedding no_repr coat_listing "processed unit_embedding coat_listing"
          no_embedding store_upsert empty_store "store_utcnow no_stamp", OF h1 h2]
  from c have a: "process_product no_embedding no_repr coat_listing
       = Some ((processed unit_embedding coat_listing)\<lparr>embedding := None\<rparr>)"
    by (rule conjunct1)
  from c store_accepts have "import_products (store_utcnow no_stamp) store_upsert empty_store
             [(processed unit_embedding coat_listing)\<lparr>embedding := None\<rparr>]
       = (\<lparr>inserted = 1, updated = 0, errors = 0\<rparr>,
          \<lparr>table = upsert_row on_conflict (product_dict ((processed unit_embedding coat_listing)\<lparr>embedding := None\<rparr>)
                 (store_utcnow no_stamp empty_store)) (table empty_store),
            ticks = ticks empty_store + 1\<rparr>)"
    by blast
  then have b: "fst (import_products (store_utcnow no_stamp) store_upsert empty_store
             [(processed unit_embedding coat_listing)\<lparr>embedding := None\<rparr>])
       = \<lparr>inserted = 1, updated = 0, errors = 0\<rparr>"
    by (simp only: fst_conv)
  from h1 h2 a b show ?thesis by blast
qed

text \<open>
  Claim C3, as stated, fails: the example listing has the external id \<open>123\<close>, its product
  has the id \<open>cos_123\<close> and the source \<open>scraper\<close>, so the id is not the source followed
  by an underscore and the external id.
\<close>

theorem product_id_is_not_source_prefixed:
  "process_product no_embedding no_repr coat_listing = Some (processed no_embedding coat_listing)
   \<and> map_of coat_listing (ascii ''id'') = Some (JStr (ascii ''123''))
   \<and> id' (processed no_embedding coat_listing)
       \<noteq> source (processed no_embedding coat_listing) @ ascii ''_'' @ ascii ''123''"
proof -
  have "id' (processed no_embedding coat_listing)
       \<noteq> source (processed no_embedding coat_listing) @ ascii ''_'' @ ascii ''123''"
    unfolding coat_fields by simp
  with coat_ok coat_id show ?thesis by blast
qed

text \<open>
  Claim C3, amended. For every listing that normalizes to a product, the id of the product
  is the fixed prefix \<open>cos_\<close> followed by the external id as an f-string renders it (the
  external id itself when it is a string), and the source of the product is \<open>scraper\<close>.
\<close>

theorem product_id_has_cos_prefix:
  assumes "process_product gen fmt raw = Some p"
  shows "id' p = ascii ''cos_'' @ format_value fmt (dict_get raw ''id'' (JStr []))
       \<and> source p = ascii ''scraper''
       \<and> (map_of raw (ascii ''id'') = Some (JStr external_id)
            \<longrightarrow> id' p = ascii ''cos_'' @ external_id)"
  using assms unfolding process_product_stages
  by (auto simp: new_product_def format_value_def dict_get_def)

theorem product_id_has_cos_prefix_witness:
  "process_product no_embedding no_repr coat_listing = Some (processed no_embedding coat_listing)
   \<and> map_of coat_listing (ascii ''id'') = Some (JStr (ascii ''123''))
   \<and> id' (processed no_embedding coat_listing) = ascii ''cos_'' @ ascii ''123''
   \<and> source (processed no_embedding coat_listing) = ascii ''scraper''"
  using product_id_has_cos_prefix [OF coat_ok, of no_embedding "ascii ''123''"] coat_id coat_ok
  by blast

text \<open>
  Claim C4 says that an empty, absent or unparseable price value gives the price 0.0 and
  never rejects the record. The code does so for price text and for a missing key, but a
  listing whose price value is JSON \<open>null\<close> raises \<open>AttributeError\<close> at \<open>replace\<close>,
  before the \<open>try\<close> around \<open>float\<close> is entered, and the record is dropped.
\<close>

theorem null_price_drops_record:
  "process_product_try no_embedding no_repr null_price_listing = Inl AttributeError
   \<and> process_product no_embedding no_repr null_price_listing = None"
  unfolding null_price_listing_def
  by (simp add: example_eval)

text \<open>
  Claim C5 says that the gender is MAN exactly when a category label indicates men's, and
  WOMAN otherwise. The code gives MAN to the listing whose only category label is
  \<open>Women's Dresses\<close>.
\<close>

theorem womens_label_gives_man:
  "process_product no_embedding no_repr womens_listing = Some (processed no_embedding womens_listing)
   \<and> dict_get womens_listing ''categories'' (JArr []) = JArr [JStr (ascii ''Women's Dresses'')]
   \<and> gender (processed no_embedding womens_listing) = ascii ''MAN''"
  using womens_ok womens_fields(1) womens_categories by blast

text \<open>
  Claim C6, as stated, fails: two category labels that both contain \<open>wool\<close> give the tags
  \<open>wool, wool\<close>, in which the keyword appears twice.
\<close>

theorem tags_repeat_a_keyword:
  "process_product no_embedding no_repr wool_listing = Some (processed no_embedding wool_listing)
   \<and> tags (processed no_embedding wool_listing) = Some [ascii ''wool'', ascii ''wool'']
   \<and> \<not> distinct [ascii ''wool'', ascii ''wool'']"
proof -
  have "\<not> distinct [ascii ''wool'', ascii ''wool'']" by simp
  with wool_ok wool_tags show ?thesis by blast
qed

text \<open>
  Claim C6, amended. For every listing that normalizes to a product, the category labels
  are strings and the tags are, in the order of the labels, the keyword of each label that
  has one: the first of cashmere, wool, cotton that the label contains, matched
  case-insensitively. So a keyword appears once for every label that contributes it. When
  no label has a keyword the tags are absent and never an empty collection; a label with a
  keyword, such as \<open>Cashmere Sweater\<close> with \<open>cashmere\<close>, puts that keyword among the tags.
\<close>

theorem tags_one_keyword_per_label:
  assumes "process_product gen fmt raw = Some p"
  shows "(\<exists>labels. iterate (dict_get raw ''categories'' (JArr [])) = Inr (map JStr labels)
             \<and> tags p = (if List.map_filter fabric_tag labels = [] then None
                          else Some (List.map_filter fabric_tag labels)))
       \<and> tags p \<noteq> Some []
       \<and> (dict_get raw ''categories'' (JArr []) = JArr cats \<and> JStr label \<in> set cats
            \<and> fabric_tag label = Some keyword
          \<longrightarrow> (\<exists>ts. tags p = Some ts \<and> keyword \<in> set ts))"
proof -
  from process_product_labels [OF assms] obtain labels where
    it: "iterate (dict_get raw ''categories'' (JArr [])) = Inr (map JStr labels)"
    and t: "tags p = (if List.map_filter fabric_tag labels = [] then None
                        else Some (List.map_filter fabric_tag labels))"
    by blast
  have a: "\<exists>labels. iterate (dict_get raw ''categories'' (JArr [])) = Inr (map JStr labels)
             \<and> tags p = (if List.map_filter fabric_tag labels = [] then None
                          else Some (List.map_filter fabric_tag labels))"
    using it t by blast
  have b: "tags p \<noteq> Some []"
    using t by (simp split: if_splits)
  have c: "\<exists>ts. tags p = Some ts \<and> keyword \<in> set ts"
    if h: "dict_get raw ''categories'' (JArr []) = JArr cats" "JStr label \<in> set cats"
      "fabric_tag label = Some keyword"
  proof -
    from it h(1) have "cats = map JStr labels" by (simp add: iterate_def)
    with h(2) have "label \<in> set labels" by auto
    then have "keyword \<in> set (List.map_filter fabric_tag labels)"
      using h(3) by (rule map_filter_member)
    then show ?thesis using t by auto
  qed
  from a b c show ?thesis by blast
qed

theorem tags_one_keyword_per_label_witness:
  "process_product no_embedding no_repr cashmere_listing = Some (processed no_embedding cashmere_listing)
   \<and> dict_get cashmere_listing ''categories'' (JArr []) = JArr [JStr (ascii ''Cashmere Sweater'')]
   \<and> JStr (ascii ''Cashmere Sweater'') \<in> set [JStr (ascii ''Cashmere Sweater'')]
   \<and> fabric_tag (ascii ''Cashmere Sweater'') = Some (ascii ''cashmere'')
   \<and> (\<exists>ts. tags (processed no_embedding cashmere_listing) = Some ts \<and> ascii ''cashmere'' \<in> set ts)
   \<and> tags (processed no_embedding cashmere_listing) \<noteq> Some []"
proof -
  have m: "JStr (ascii ''Cashmere Sweater'') \<in> set [JStr (ascii ''Cashmere Sweater'')]"
    by simp
  from tags_one_keyword_per_label [OF cashmere_ok, of no_embedding
      "[JStr (ascii ''Cashmere Sweater'')]" "ascii ''Cashmere Sweater''" "ascii ''cashmere''"]
    cashmere_categories m cashmere_sweater_tag
  have "(\<exists>ts. tags (processed no_embedding cashmere_listing) = Some ts \<and> ascii ''cashmere'' \<in> set ts)
      \<and> tags (processed no_embedding cashmere_listing) \<noteq> Some []"
    by blast
  with cashmere_ok cashmere_categories m cashmere_sweater_tag show ?thesis by blast
qed

text \<open>
  Claim C9. For every listing that normalizes to a product, if a label of its category
  list contains three consecutive characters that lower-case to \<open>men\<close>, the gender of the
  product is MAN. The label \<open>Women's Dresses\<close> is such a label.
\<close>

theorem men_substring_gives_man:
  assumes "process_product gen fmt raw = Some p"
    and "dict_get raw ''categories'' (JArr []) = JArr cats"
    and "JStr label \<in> set cats"
    and "sublist mid label"
    and "lower mid = ascii ''men''"
  shows "gender p = ascii ''MAN''"
proof -
  from process_product_labels [OF assms(1)] obtain labels where
    it: "iterate (dict_get raw ''categories'' (JArr [])) = Inr (map JStr labels)"
    and g: "gender p = (if list_ex (\<lambda>l. str_contains (ascii ''men'') (lower l)) labels
                          then ascii ''MAN'' else ascii ''WOMAN'')"
    by blast
  from it assms(2) have "cats = map JStr labels"
    by (simp add: iterate_def)
  with assms(3) have "label \<in> set labels" by auto
  moreover have "str_contains (ascii ''men'') (lower label)"
    using lower_sublist [OF assms(4)] assms(5) by (simp add: str_contains_sublist)
  ultimately have "list_ex (\<lambda>l. str_contains (ascii ''men'') (lower l)) labels"
    unfolding list_ex_iff by blast
  with g show ?thesis by simp
qed

theorem men_substring_gives_man_witness:
  "process_product no_embedding no_repr womens_listing = Some (processed no_embedding womens_listing)
   \<and> dict_get womens_listing ''categories'' (JArr []) = JArr [JStr (ascii ''Women's Dresses'')]
   \<and> JStr (ascii ''Women's Dresses'') \<in> set [JStr (ascii ''Women's Dresses'')]
   \<and> sublist (ascii ''men'') (ascii ''Women's Dresses'')
   \<and> lower (ascii ''men'') = ascii ''men''
   \<and> gender (processed no_embedding womens_listing) = ascii ''MAN''"
proof -
  have m: "JStr (ascii ''Women's Dresses'') \<in> set [JStr (ascii ''Women's Dresses'')]"
    by simp
  from men_substring_gives_man [OF womens_ok womens_categories m men_in_women lower_men]
  have "gender (processed no_embedding womens_listing) = ascii ''MAN''" .
  with womens_ok womens_categories m men_in_women lower_men show ?thesis by blast
qed

section \<open>The limit\<close>

text \<open>
  Claim C7. When normalization of a source gives the list \<open>products\<close> and a positive
  limit is supplied, both entry points run the sink on exactly the first \<open>limit\<close>
  products, in their order: the calls the store client receives are those products. With
  at least \<open>limit\<close> products that list has \<open>limit\<close> elements, so 5 of 20.
\<close>

theorem limit_keeps_first_records:
  assumes "process_json_response gen fmt json_data = Inr products"
    and "0 < limit"
  shows "scrape_from_json_file utcnow execute w gen fmt json_data (Some limit)
           = (case import_products utcnow execute w (take (nat limit) products) of
                (res, w') \<Rightarrow> (Inr res, w'))
       \<and> scrape_from_json_url utcnow execute w gen fmt json_data (Some limit)
           = (case import_products utcnow execute w (take (nat limit) products) of
                (res, w') \<Rightarrow> (Inr res, w'))
       \<and> map (\<lambda>e. ProductData.truncate (fst e))
            (snd (snd (scrape_from_json_file (\<lambda>wl. utcnow (fst wl)) (recording execute) (w, [])
                         gen fmt json_data (Some limit))))
           = take (nat limit) products
       \<and> map (\<lambda>e. ProductData.truncate (fst e))
            (snd (snd (scrape_from_json_url (\<lambda>wl. utcnow (fst wl)) (recording execute) (w, [])
                         gen fmt json_data (Some limit))))
           = take (nat limit) products
       \<and> (limit \<le> int (length products) \<longrightarrow> length (take (nat limit) products) = nat limit)"
proof -
  have l: "limit_products (Some limit) products = take (nat limit) products"
    using assms(2) by (simp add: limit_products_def slice_to_def)
  show ?thesis
    using scrape_file_eq [OF assms(1), of utcnow execute w "Some limit"]
      scrape_url_eq [OF assms(1), of utcnow execute w "Some limit"]
      scrape_file_recorded [OF assms(1), of utcnow execute w "Some limit"]
      scrape_url_recorded [OF assms(1), of utcnow execute w "Some limit"]
    unfolding l by auto
qed

theorem limit_keeps_first_records_witness:
  "process_json_response no_embedding no_repr twenty_listings = Inr twenty_products
   \<and> (0::int) < 5
   \<and> length twenty_products = 20
   \<and> map (\<lambda>e. ProductData.truncate (fst e))
        (snd (snd (scrape_from_json_file (\<lambda>wl. store_utcnow no_stamp (fst wl))
                     (recording store_upsert) (empty_store, [])
                     no_embedding no_repr twenty_listings (Some 5))))
       = [processed no_embedding wool_listing, processed no_embedding womens_listing,
          processed no_embedding coat_listing, processed no_embedding coat_listing,
          processed no_embedding coat_listing]"
proof -
  have p: "(0::int) < 5" by simp
  from limit_keeps_first_records [OF twenty_ok p, of "store_utcnow no_stamp" store_upsert empty_store]
  have "map (\<lambda>e. ProductData.truncate (fst e))
        (snd (snd (scrape_from_json_file (\<lambda>wl. store_utcnow no_stamp (fst wl))
                     (recording store_upsert) (empty_store, [])
                     no_embedding no_repr twenty_listings (Some 5))))
       = take (nat 5) twenty_products"
    by blast
  also have "take (nat 5) twenty_products = take 5 twenty_products" by simp
  finally show ?thesis
    using twenty_ok p twenty_length twenty_first_five by simp
qed

text \<open>
  Claim C10. When the limit is 0 or \<open>None\<close>, both entry points run the sink on the
  whole list of normalized products: the calls the store client receives are all of them.
\<close>

theorem zero_limit_keeps_all_records:
  assumes "process_json_response gen fmt json_data = Inr products"
    and "limit = None \<or> limit = Some 0"
  shows "scrape_from_json_file utcnow execute w gen fmt json_data limit
           = (case import_products utcnow execute w products of (res, w') \<Rightarrow> (Inr res, w'))
       \<and> scrape_from_json_url utcnow execute w gen fmt json_data limit
           = (case import_products utcnow execute w products of (res, w') \<Rightarrow> (Inr res, w'))
       \<and> map (\<lambda>e. ProductData.truncate (fst e))
            (snd (snd (scrape_from_json_file (\<lambda>wl. utcnow (fst wl)) (recording execute) (w, [])
                         gen fmt json_data limit)))
           = products
       \<and> map (\<lambda>e. ProductData.truncate (fst e))
            (snd (snd (scrape_from_json_url (\<lambda>wl. utcnow (fst wl)) (recording execute) (w, [])
                         gen fmt json_data limit)))
           = products"
proof -
  have l: "limit_products limit products = products"
    using assms(2) by (auto simp: limit_products_def)
  show ?thesis
    using scrape_file_eq [OF assms(1), of utcnow execute w limit]
      scrape_url_eq [OF assms(1), of utcnow execute w limit]
      scrape_file_recorded [OF assms(1), of utcnow execute w limit]
      scrape_url_recorded [OF assms(1), of utcnow execute w limit]
    unfolding l by auto
qed

theorem zero_limit_keeps_all_records_witness:
  "process_json_response no_embedding no_repr twenty_listings = Inr twenty_products
   \<and> length twenty_products = 20
   \<and> map (\<lambda>e. ProductData.truncate (fst e))
        (snd (snd (scrape_from_json_file (\<lambda>wl. store_utcnow no_stamp (fst wl))
                     (recording store_upsert) (empty_store, [])
                     no_embedding no_repr twenty_listings (Some 0))))
       = twenty_products
   \<and> map (\<lambda>e. ProductData.truncate (fst e))
        (snd (snd (scrape_from_json_file (\<lambda>wl. store_utcnow no_stamp (fst wl))
                     (recording store_upsert) (empty_store, [])
                     no_embedding no_repr twenty_listings None)))
       = twenty_products"
proof -
  have z: "Some (0::int) = None \<or> Some (0::int) = Some 0" by simp
  have n: "(None::int option) = None \<or> (None::int option) = Some 0" by simp
  from zero_limit_keeps_all_records [OF twenty_ok z, of "store_utcnow no_stamp" store_upsert empty_store]
    zero_limit_keeps_all_records [OF twenty_ok n, of "store_utcnow no_stamp" store_upsert empty_store]
    twenty_ok twenty_length
  show ?thesis by blast
qed

section \<open>Re-ingestion\<close>

text \<open>
  Claim C1, on the store as the specification gives it. Start from a table with one row
  per key and ingest the batch twice. The table is then the one a single ingestion of the
  batch gives under the clock readings of the second run, and it differs from the table
  after the first run in \<open>created_at\<close> only; it has one row per key, its keys are
  those it had and those of the batch; the row it holds for a key of the batch is the last
  row the second run wrote for that key, and the fields of that row other than
  \<open>created_at\<close> are those of the last product of the batch with that key; the rows of
  other keys are as they were; and the second run counts every product as inserted. The
  key is the one the importer names in \<open>on_conflict\<close>.
\<close>

theorem reingestion_is_idempotent:
  assumes "distinct (map natural_key (table s0))"
  shows "let first_run = import_products (store_utcnow stamps) store_upsert s0 products;
             second_run = import_products (store_utcnow stamps) store_upsert (snd first_run) products;
             single_run = import_products (store_utcnow stamps) store_upsert
                            (s0\<lparr>ticks := ticks (snd first_run)\<rparr>) products
         in table (snd second_run) = table (snd single_run)
          \<and> map ProductData.truncate (table (snd second_run))
              = map ProductData.truncate (table (snd first_run))
          \<and> distinct (map natural_key (table (snd second_run)))
          \<and> natural_key ` set (table (snd second_run))
              = natural_key ` set (table s0) \<union> natural_key ` set products
          \<and> (\<forall>k \<in> natural_key ` set products.
                stored (table (snd second_run)) k
                  = stored (rev (rows_from stamps (ticks (snd first_run)) products)) k)
          \<and> (\<forall>k \<in> natural_key ` set products.
                map_option ProductData.truncate (stored (table (snd second_run)) k)
                  = List.find (\<lambda>p. natural_key p = k) (rev products))
          \<and> (\<forall>k. k \<notin> natural_key ` set products
                \<longrightarrow> stored (table (snd second_run)) k = stored (table s0) k)
          \<and> fst second_run = \<lparr>inserted = length products, updated = 0, errors = 0\<rparr>"
proof -
  let ?n = "ticks s0 + length products"
  let ?rs1 = "rows_from stamps (ticks s0) products"
  let ?rs2 = "rows_from stamps ?n products"
  let ?t1 = "fold (upsert_row on_conflict) ?rs1 (table s0)"
  let ?t2 = "fold (upsert_row on_conflict) ?rs2 ?t1"
  have ks: "map natural_key ?rs1 = map natural_key ?rs2"
    by (simp add: keys_rows_from)
  have a: "?t2 = fold (upsert_row on_conflict) ?rs2 (table s0)"
    by (rule upsert_twice [OF assms ks])
  have b: "distinct (map natural_key ?t2)"
    using assms by (simp add: distinct_fold)
  have kp: "natural_key ` set ?rs2 = natural_key ` set products"
    and kp1: "natural_key ` set ?rs1 = natural_key ` set products"
    by (metis keys_rows_from list.set_map)+
  have c: "natural_key ` set ?t2 = natural_key ` set (table s0) \<union> natural_key ` set products"
    unfolding keys_fold_set kp kp1 by auto
  have d: "stored ?t2 k = stored (rev ?rs2) k" if "k \<in> natural_key ` set products" for k
  proof -
    from that kp have "k \<in> natural_key ` set (rev ?rs2)" by simp
    then have "stored (rev ?rs2) k \<noteq> None"
      by (simp only: stored_None) simp
    then show ?thesis
      by (auto simp: stored_fold split: option.splits)
  qed
  have e: "map ProductData.truncate ?t2 = map ProductData.truncate ?t1"
    by (rule second_run_changes_stamps_only [OF assms])
  have f: "map_option ProductData.truncate (stored ?t2 k)
             = List.find (\<lambda>p. natural_key p = k) (rev products)"
    if "k \<in> natural_key ` set products" for k
    using d [OF that] by (simp add: stored_rows_from)
  have g: "stored ?t2 k = stored (table s0) k" if "k \<notin> natural_key ` set products" for k
  proof -
    from that kp kp1 have "stored (rev ?rs2) k = None" "stored (rev ?rs1) k = None"
      by (simp_all add: stored_None)
    then show ?thesis by (simp add: stored_fold)
  qed
  from a b c d e f g show ?thesis
    by (simp add: import_products_store Let_def)
qed

theorem reingestion_is_idempotent_witness:
  "distinct (map natural_key (table empty_store))
   \<and> (let first_run = import_products (store_utcnow no_stamp) store_upsert empty_store
                         [processed no_embedding coat_listing, processed no_embedding womens_listing];
           second_run = import_products (store_utcnow no_stamp) store_upsert (snd first_run)
                         [processed no_embedding coat_listing, processed no_embedding womens_listing];
           single_run = import_products (store_utcnow no_stamp) store_upsert
                            (empty_store\<lparr>ticks := ticks (snd first_run)\<rparr>)
                         [processed no_embedding coat_listing, processed no_embedding womens_listing]
       in table (snd second_run) = table (snd single_run)
          \<and> distinct (map natural_key (table (snd second_run)))
          \<and> map_option ProductData.truncate
               (stored (table (snd second_run)) (natural_key (processed no_embedding womens_listing)))
              = Some (processed no_embedding womens_listing))"
proof -
  have h: "distinct (map natural_key (table empty_store))"
    by (simp add: empty_store_def)
  have m: "natural_key (processed no_embedding womens_listing)
             \<in> natural_key ` set [processed no_embedding coat_listing,
                                     processed no_embedding womens_listing]"
    by simp
  have l: "List.find (\<lambda>p. natural_key p = natural_key (processed no_embedding womens_listing))
             (rev [processed no_embedding coat_listing, processed no_embedding womens_listing])
           = Some (processed no_embedding womens_listing)"
    by simp
  from reingestion_is_idempotent [OF h, of no_stamp
      "[processed no_embedding coat_listing, processed no_embedding womens_listing]"] h m
  show ?thesis
    unfolding Let_def l [symmetric] by blast
qed

end
